theory Spec2Isabelle
  imports Complex_Main "HOL-Library.Word"
begin

section \<open>Data model of \<open>src/extension.ts\<close>\<close>

text \<open>
  A Node \<open>Buffer\<close> is a sequence of bytes. A thrown JavaScript value is an
  \<open>Error\<close> carrying its message; every call that may throw returns
  \<open>js_error + 'a\<close>, with \<open>Inl\<close> the thrown value.
\<close>

type_synonym Buffer = "8 word list"

datatype js_error = Error string

text \<open>The interfaces \<open>ImageDiffData\<close> and \<open>GitVersionOptions\<close> (lines 8 to 20).\<close>

record ImageDiffData =
  currentPath :: string
  currentData :: Buffer
  previousData :: Buffer
  currentLabel :: string
  previousLabel :: string

record GitVersionOptions =
  filePath :: string
  revision :: string
  workspaceRoot :: string

text \<open>
  A decoded image of \<open>pngjs\<close>: its dimensions and its RGBA bytes, four per pixel,
  row after row.
\<close>

record PNG =
  width :: nat
  height :: nat
  data :: Buffer

text \<open>
  The options object of \<open>pixelmatch\<close>. Every field is optional in the library's
  declaration; a field the caller leaves out is \<open>None\<close>. The numbers are the decimal
  literals of the source.
\<close>

record PixelmatchOptions =
  threshold :: "rat option"
  includeAA :: "bool option"
  alpha :: "rat option"
  aaColor :: "(nat \<times> nat \<times> nat) option"
  diffColor :: "(nat \<times> nat \<times> nat) option"
  diffColorAlt :: "(nat \<times> nat \<times> nat) option"
  diffMask :: "bool option"

text \<open>What a subprocess did: whether it could be spawned, its exit status, its output.\<close>

record process_result =
  spawn_error :: "string option"
  status :: nat
  stdout :: Buffer

text \<open>
  The host: the Node runtime, the editor and the two image libraries. None of them is
  part of the repository, so the program is modelled over an arbitrary host.
  \<^item> \<open>path_relative\<close>, \<open>path_extname\<close>, \<open>path_basename\<close>, \<open>path_dirname\<close>:
    the functions of Node's \<open>path\<close> module;
  \<^item> \<open>toString_base64\<close>: \<open>Buffer.toString('base64')\<close>;
  \<^item> \<open>run_process\<close>: the subprocess a shell command starts in a working directory;
  \<^item> \<open>readFileSync\<close>: \<open>fs.readFileSync\<close>;
  \<^item> \<open>PNG_sync_read\<close>, \<open>PNG_sync_write\<close>: the codec of \<open>pngjs\<close>;
  \<^item> \<open>pixelmatch\<close>: the diff engine; it writes the diff buffer it is given and
    returns the number of differing pixels, so the model returns both;
  \<^item> \<open>workspaceFolders\<close>, \<open>getWorkspaceFolder\<close>: the editor's workspace.
\<close>

record host =
  path_relative :: "string \<Rightarrow> string \<Rightarrow> string"
  path_extname :: "string \<Rightarrow> string"
  path_basename :: "string \<Rightarrow> string"
  path_dirname :: "string \<Rightarrow> string"
  toString_base64 :: "Buffer \<Rightarrow> string"
  run_process :: "string \<Rightarrow> string \<Rightarrow> process_result"
  readFileSync :: "string \<Rightarrow> js_error + Buffer"
  PNG_sync_read :: "Buffer \<Rightarrow> js_error + PNG"
  PNG_sync_write :: "PNG \<Rightarrow> js_error + Buffer"
  pixelmatch :: "Buffer \<Rightarrow> Buffer \<Rightarrow> Buffer \<Rightarrow> nat \<Rightarrow> nat \<Rightarrow> PixelmatchOptions
                 \<Rightarrow> js_error + (Buffer \<times> nat)"
  workspaceFolders :: "string list option"
  getWorkspaceFolder :: "string \<Rightarrow> string option"

text \<open>Sequencing of calls that may throw: the first thrown value ends the block.\<close>

definition bindE :: "'e + 'a \<Rightarrow> ('a \<Rightarrow> 'e + 'b) \<Rightarrow> 'e + 'b" where
  "bindE m f = (case m of Inl e \<Rightarrow> Inl e | Inr x \<Rightarrow> f x)"

section \<open>GitService\<close>

text \<open>
  Modelled from the spec: \<open>execSync\<close> of Node's \<open>child_process\<close>, which is not
  in the repository. It runs the command in \<open>cwd\<close> and returns the output; the
  retrieval fails (throws) when the process cannot be started, when it exits with a
  non-zero status, or when the content is longer than the configured maximum
  \<open>maxBuffer\<close>.
\<close>

definition execSync :: "host \<Rightarrow> string \<Rightarrow> string \<Rightarrow> nat \<Rightarrow> js_error + Buffer" where
  "execSync H command cwd maxBuffer =
     (let r = run_process H command cwd in
      case spawn_error r of
        Some m \<Rightarrow> Inl (Error m)
      | None \<Rightarrow>
          if maxBuffer < length (stdout r) then Inl (Error ''spawnSync /bin/sh ENOBUFS'')
          else if status r \<noteq> 0 then Inl (Error (''Command failed: '' @ command))
          else Inr (stdout r))"

text \<open>\<open>.replace(/\\/g, '/')\<close>: every backslash becomes a forward slash.\<close>

definition replace_backslashes :: "string \<Rightarrow> string" where
  "replace_backslashes s = map (\<lambda>c. if c = CHR 0x5C then CHR ''/'' else c) s"

text \<open>Lines 187 to 190: the relative path and the command text.\<close>

definition relativePath :: "host \<Rightarrow> GitVersionOptions \<Rightarrow> string" where
  "relativePath H options =
     replace_backslashes (path_relative H (workspaceRoot options) (filePath options))"

definition gitCommand :: "host \<Rightarrow> GitVersionOptions \<Rightarrow> string" where
  "gitCommand H options =
     ''git show '' @ revision options @ '':'' @ [CHR 0x22] @ relativePath H options @ [CHR 0x22]"

text \<open>
  \<open>GitService.getVersion\<close>: the body of the \<open>try\<close> block, then the \<open>catch\<close>
  that turns every thrown value into \<open>null\<close>.
\<close>

definition getVersion_try :: "host \<Rightarrow> GitVersionOptions \<Rightarrow> js_error + Buffer" where
  "getVersion_try H options =
     execSync H (gitCommand H options) (workspaceRoot options) (10 * 1024 * 1024)"

definition getVersion :: "host \<Rightarrow> GitVersionOptions \<Rightarrow> Buffer option" where
  "getVersion H options =
     (case getVersion_try H options of Inl error \<Rightarrow> None | Inr content \<Rightarrow> Some content)"

section \<open>FileService\<close>

definition readFile :: "host \<Rightarrow> string \<Rightarrow> js_error + Buffer" where
  "readFile H path = readFileSync H path"

text \<open>\<open>path.extname(filePath).slice(1)\<close> drops the first character, the dot.\<close>

definition getImageBase64 :: "host \<Rightarrow> Buffer \<Rightarrow> string \<Rightarrow> string" where
  "getImageBase64 H d path =
     (let ext = drop 1 (path_extname H path)
      in ''data:image/'' @ ext @ '';base64,'' @ toString_base64 H d)"

section \<open>DiffImageGenerator\<close>

text \<open>
  Modelled from the spec: the constructor \<open>new PNG({ width, height })\<close> of
  \<open>pngjs\<close>, which is not in the repository. It allocates a blank canvas of the given
  size: fully transparent, all-zero RGBA.
\<close>

definition new_PNG :: "nat \<Rightarrow> nat \<Rightarrow> PNG" where
  "new_PNG w h = \<lparr>width = w, height = h, data = replicate (4 * w * h) 0\<rparr>"

text \<open>
  Modelled from the spec: \<open>Buffer.copy\<close> and \<open>PNG.bitblt\<close>, which are not in the
  repository. \<open>Buffer_copy src target targetStart sourceStart sourceEnd\<close> writes the
  bytes \<open>sourceStart ..< sourceEnd\<close> of \<open>src\<close> into \<open>target\<close> from
  \<open>targetStart\<close> on, never beyond the end of \<open>target\<close>.
  \<open>PNG_bitblt src dst srcX srcY w h deltaX deltaY\<close> copies the \<open>w\<close> by \<open>h\<close>
  pixels of \<open>src\<close> at \<open>(srcX, srcY)\<close> into \<open>dst\<close> at \<open>(deltaX, deltaY)\<close>, one
  row at a time (\<open>bitblt_rows\<close> is that loop), and refuses a rectangle that leaves
  either image. The source mutates \<open>dst\<close>; the model returns it updated.
\<close>

definition Buffer_copy :: "Buffer \<Rightarrow> Buffer \<Rightarrow> nat \<Rightarrow> nat \<Rightarrow> nat \<Rightarrow> Buffer" where
  "Buffer_copy src target targetStart sourceStart sourceEnd =
     (let chunk = take (length target - targetStart)
                    (take (sourceEnd - sourceStart) (drop sourceStart src))
      in take targetStart target @ chunk @ drop (targetStart + length chunk) target)"

definition bitblt_rows ::
  "PNG \<Rightarrow> nat \<Rightarrow> nat \<Rightarrow> nat \<Rightarrow> nat \<Rightarrow> nat \<Rightarrow> nat \<Rightarrow> nat \<Rightarrow> Buffer \<Rightarrow> Buffer" where
  "bitblt_rows src dstWidth srcX srcY w h deltaX deltaY target =
     fold (\<lambda>y d. Buffer_copy (data src) d
                    (4 * ((deltaY + y) * dstWidth + deltaX))
                    (4 * ((srcY + y) * width src + srcX))
                    (4 * ((srcY + y) * width src + srcX + w)))
          [0..<h] target"

definition PNG_bitblt ::
  "PNG \<Rightarrow> PNG \<Rightarrow> nat \<Rightarrow> nat \<Rightarrow> nat \<Rightarrow> nat \<Rightarrow> nat \<Rightarrow> nat \<Rightarrow> js_error + PNG" where
  "PNG_bitblt src dst srcX srcY w h deltaX deltaY =
     (if srcX > width src \<or> srcY > height src
         \<or> srcX + w > width src \<or> srcY + h > height src
      then Inl (Error ''bitblt reading outside image'')
      else if deltaX > width dst \<or> deltaY > height dst
         \<or> deltaX + w > width dst \<or> deltaY + h > height dst
      then Inl (Error ''bitblt writing outside image'')
      else Inr (dst\<lparr>data :=
             bitblt_rows src (width dst) srcX srcY w h deltaX deltaY (data dst)\<rparr>))"

text \<open>Line 265: the options object handed to the diff engine.\<close>

definition diffOptions :: PixelmatchOptions where
  "diffOptions = \<lparr>threshold = Some (1 / 10), includeAA = Some False, alpha = None,
     aaColor = None, diffColor = None, diffColorAlt = None, diffMask = None\<rparr>"

text \<open>
  Lines 231 to 257 of \<open>DiffImageGenerator.generate\<close>: the three canvases of the
  common size, with each decoded image blitted onto its own.
\<close>

definition generate_canvases :: "PNG \<Rightarrow> PNG \<Rightarrow> js_error + (PNG \<times> PNG \<times> PNG)" where
  "generate_canvases currentPng previousPng =
     (let w = max (width currentPng) (width previousPng);
          h = max (height currentPng) (height previousPng);
          currentImg = new_PNG w h;
          previousImg = new_PNG w h;
          diffImg = new_PNG w h
      in bindE (PNG_bitblt currentPng currentImg 0 0
                  (width currentPng) (height currentPng) 0 0) (\<lambda>currentImg.
         bindE (PNG_bitblt previousPng previousImg 0 0
                  (width previousPng) (height previousPng) 0 0) (\<lambda>previousImg.
         Inr (currentImg, previousImg, diffImg))))"

text \<open>
  \<open>DiffImageGenerator.generate\<close>: the \<open>try\<close> block, then the \<open>catch\<close> that
  returns \<open>null\<close>. The number \<open>pixelmatch\<close> returns is not bound to anything.
\<close>

definition generate_try :: "host \<Rightarrow> Buffer \<Rightarrow> Buffer \<Rightarrow> js_error + string" where
  "generate_try H currentBytes previousBytes =
     bindE (PNG_sync_read H currentBytes) (\<lambda>currentPng.
     bindE (PNG_sync_read H previousBytes) (\<lambda>previousPng.
     let w = max (width currentPng) (width previousPng);
         h = max (height currentPng) (height previousPng)
     in bindE (generate_canvases currentPng previousPng) (\<lambda>(currentImg, previousImg, diffImg).
        bindE (pixelmatch H (data currentImg) (data previousImg) (data diffImg) w h diffOptions)
          (\<lambda>(diffData, count).
        bindE (PNG_sync_write H (diffImg\<lparr>data := diffData\<rparr>)) (\<lambda>diffBuffer.
        Inr (''data:image/png;base64,'' @ toString_base64 H diffBuffer))))))"

definition generate :: "host \<Rightarrow> Buffer \<Rightarrow> Buffer \<Rightarrow> string option" where
  "generate H currentBytes previousBytes =
     (case generate_try H currentBytes previousBytes of
        Inl error \<Rightarrow> None
      | Inr diffImageBase64 \<Rightarrow> Some diffImageBase64)"

section \<open>DiffViewerService and the command handlers\<close>

text \<open>
  The editor's side: the notifications shown and the panels opened. The object handed
  to \<open>getDiffViewerContent\<close> stands for the page it renders, which embeds these five
  values and nothing else of the comparison.
\<close>

datatype notification = WarningMessage string | ErrorMessage string

record ViewerContent =
  currentImage :: string
  previousImage :: string
  diffImage :: "string option"
  shownCurrentLabel :: string
  shownPreviousLabel :: string

record WebviewPanel =
  panelTitle :: string
  localResourceRoots :: "string list"
  html :: "ViewerContent option"

record ExtensionContext =
  extensionUri :: string

record Uri =
  fsPath :: string

record ui =
  messages :: "notification list"
  panels :: "WebviewPanel list"

definition createWebviewPanel :: "string \<Rightarrow> ExtensionContext \<Rightarrow> string list \<Rightarrow> WebviewPanel" where
  "createWebviewPanel t context roots =
     \<lparr>panelTitle = t, localResourceRoots = roots @ [extensionUri context], html = None\<rparr>"

text \<open>
  \<open>openDiffViewer\<close>: the promise of \<open>generate\<close> always resolves, so the callback
  that fills the panel always runs.
\<close>

definition openDiffViewer :: "host \<Rightarrow> ExtensionContext \<Rightarrow> ImageDiffData \<Rightarrow> WebviewPanel" where
  "openDiffViewer H context d =
     (let panel = createWebviewPanel (''Image Diff - '' @ path_basename H (currentPath d))
                    context [path_dirname H (currentPath d)];
          currentImageBase64 = getImageBase64 H (currentData d) (currentPath d);
          previousImageBase64 = getImageBase64 H (previousData d) (currentPath d);
          diffImageBase64 = generate H (currentData d) (previousData d)
      in panel\<lparr>html := Some \<lparr>currentImage = currentImageBase64,
                                previousImage = previousImageBase64,
                                diffImage = diffImageBase64,
                                shownCurrentLabel = currentLabel d,
                                shownPreviousLabel = previousLabel d\<rparr>\<rparr>)"

record TwoFilesOptions =
  leftPath :: string
  rightPath :: string
  leftData :: Buffer
  rightData :: Buffer
  title :: "string option"

text \<open>
  \<open>openTwoFilesDiffViewer\<close>. \<open>title || ...\<close> takes the default when the title is
  missing or empty; the arrow of the default title is the three bytes of U+2194.
\<close>

definition openTwoFilesDiffViewer :: "host \<Rightarrow> ExtensionContext \<Rightarrow> TwoFilesOptions \<Rightarrow> WebviewPanel" where
  "openTwoFilesDiffViewer H context options =
     (let panel = createWebviewPanel
                    (case title options of
                       Some t \<Rightarrow> if t \<noteq> [] then t
                                 else ''Image Diff - '' @ path_basename H (leftPath options)
                                      @ [CHR '' '', CHR 0xE2, CHR 0x86, CHR 0x94, CHR '' '']
                                      @ path_basename H (rightPath options)
                     | None \<Rightarrow> ''Image Diff - '' @ path_basename H (leftPath options)
                                      @ [CHR '' '', CHR 0xE2, CHR 0x86, CHR 0x94, CHR '' '']
                                      @ path_basename H (rightPath options))
                    context [path_dirname H (leftPath options), path_dirname H (rightPath options)];
          leftImageBase64 = getImageBase64 H (leftData options) (leftPath options);
          rightImageBase64 = getImageBase64 H (rightData options) (rightPath options);
          diffImageBase64 = generate H (rightData options) (leftData options)
      in panel\<lparr>html := Some \<lparr>currentImage = rightImageBase64,
                                previousImage = leftImageBase64,
                                diffImage = diffImageBase64,
                                shownCurrentLabel = ''Current'',
                                shownPreviousLabel = ''Previous''\<rparr>\<rparr>)"

text \<open>
  \<open>getWorkspaceRoot\<close> (lines 162 to 180) returns the root, or shows an error and
  returns \<open>null\<close>.
\<close>

definition getWorkspaceRoot :: "host \<Rightarrow> Uri \<Rightarrow> notification list \<times> string option" where
  "getWorkspaceRoot H uri =
     (case workspaceFolders H of
        None \<Rightarrow> ([ErrorMessage ''No workspace found. This extension requires a Git repository.''], None)
      | Some folders \<Rightarrow>
          (case getWorkspaceFolder H (fsPath uri) of
             None \<Rightarrow> ([ErrorMessage (''File does not belong to any open workspace: '' @ fsPath uri)], None)
           | Some folder \<Rightarrow> ([], Some folder)))"

text \<open>\<open>`${error}`\<close> of an \<open>Error\<close> object.\<close>

fun error_toString :: "js_error \<Rightarrow> string" where
  "error_toString (Error m) = ''Error: '' @ m"

text \<open>
  \<open>handleCompareWithPrevious\<close> (lines 53 to 85). \<open>!workspaceRoot\<close> holds for
  \<open>null\<close> and for the empty string; \<open>!previousImageData\<close> holds for \<open>null\<close> only,
  since a \<open>Buffer\<close> is an object.
\<close>

definition handleCompareWithPrevious_try :: "host \<Rightarrow> ExtensionContext \<Rightarrow> Uri \<Rightarrow> js_error + ui" where
  "handleCompareWithPrevious_try H context uri =
     (let currentImagePath = fsPath uri;
          (shown, found) = getWorkspaceRoot H uri
      in case found of
           None \<Rightarrow> Inr \<lparr>messages = shown, panels = []\<rparr>
         | Some rootPath \<Rightarrow>
             if rootPath = [] then Inr \<lparr>messages = shown, panels = []\<rparr>
             else
               (case getVersion H \<lparr>filePath = currentImagePath, revision = ''HEAD~1'',
                                    workspaceRoot = rootPath\<rparr> of
                  None \<Rightarrow> Inr \<lparr>messages = shown @ [WarningMessage
                      ''Cannot retrieve previous version (HEAD~1) of this image from Git''],
                      panels = []\<rparr>
                | Some previousImageData \<Rightarrow>
                    bindE (readFile H currentImagePath) (\<lambda>currentImageData.
                    Inr \<lparr>messages = shown,
                         panels = [openDiffViewer H context
                           \<lparr>currentPath = currentImagePath,
                            currentData = currentImageData,
                            previousData = previousImageData,
                            currentLabel = ''Current'',
                            previousLabel = ''Previous Commit (HEAD~1)''\<rparr>]\<rparr>)))"

definition handleCompareWithPrevious :: "host \<Rightarrow> ExtensionContext \<Rightarrow> Uri \<Rightarrow> ui" where
  "handleCompareWithPrevious H context uri =
     (case handleCompareWithPrevious_try H context uri of
        Inl error \<Rightarrow> \<lparr>messages = [ErrorMessage (''Error: '' @ error_toString error)], panels = []\<rparr>
      | Inr u \<Rightarrow> u)"

section \<open>A small host for evaluating the program\<close>

text \<open>
  The theorems below hold for every host. To run the program on concrete inputs, this
  section fixes one: paths are split at the last slash and the last dot, the repository
  at \<open>/repo\<close> has one file with history, \<open>logo.png\<close>, and the codec reads an image
  written as its width, its height and its RGBA bytes. The diff engine of this host
  compares pixels exactly.
\<close>

definition test_basename :: "string \<Rightarrow> string" where
  "test_basename p = rev (takeWhile (\<lambda>c. c \<noteq> CHR ''/'') (rev p))"

definition test_dirname :: "string \<Rightarrow> string" where
  "test_dirname p = rev (drop 1 (dropWhile (\<lambda>c. c \<noteq> CHR ''/'') (rev p)))"

definition test_extname :: "string \<Rightarrow> string" where
  "test_extname p =
     (let base = test_basename p
      in if CHR ''.'' \<in> set base
         then CHR ''.'' # rev (takeWhile (\<lambda>c. c \<noteq> CHR ''.'') (rev base))
         else [])"

definition test_relative :: "string \<Rightarrow> string \<Rightarrow> string" where
  "test_relative from to =
     (if take (Suc (length from)) to = from @ ''/'' then drop (Suc (length from)) to else to)"

definition base64_digit :: "nat \<Rightarrow> char" where
  "base64_digit n =
     ''ABCDEFGHIJKLMNOPQRSTUVWXYZabcdefghijklmnopqrstuvwxyz0123456789+/'' ! n"

fun base64 :: "nat list \<Rightarrow> string" where
  "base64 [] = []"
| "base64 [a] = [base64_digit (a div 4), base64_digit ((a mod 4) * 16), CHR ''='', CHR ''='']"
| "base64 [a, b] =
     [base64_digit (a div 4), base64_digit ((a mod 4) * 16 + b div 16),
      base64_digit ((b mod 16) * 4), CHR ''='']"
| "base64 (a # b # c # bs) =
     [base64_digit (a div 4), base64_digit ((a mod 4) * 16 + b div 16),
      base64_digit ((b mod 16) * 4 + c div 64), base64_digit (c mod 64)] @ base64 bs"

fun exact_match :: "Buffer \<Rightarrow> Buffer \<Rightarrow> Buffer \<times> nat" where
  "exact_match (r1 # g1 # b1 # a1 # xs) (r2 # g2 # b2 # a2 # ys) =
     (let (d, n) = exact_match xs ys
      in if r1 = r2 \<and> g1 = g2 \<and> b1 = b2 \<and> a1 = a2 then (0 # 0 # 0 # 0 # d, n)
         else (255 # 0 # 0 # 255 # d, Suc n))"
| "exact_match xs ys = ([], 0)"

definition logo_new :: Buffer where
  "logo_new = [2, 1, 255, 0, 0, 255, 0, 0, 255, 255]"

definition logo_old :: Buffer where
  "logo_old = [1, 2, 255, 0, 0, 255, 0, 255, 0, 255]"

definition test_host :: host where
  "test_host =
     \<lparr>path_relative = test_relative,
      path_extname = test_extname,
      path_basename = test_basename,
      path_dirname = test_dirname,
      toString_base64 = (\<lambda>b. base64 (map unat b)),
      run_process = (\<lambda>command cwd.
        if cwd = ''/repo'' \<and> command = ''git show HEAD~1:'' @ [CHR 0x22] @ ''logo.png'' @ [CHR 0x22]
        then \<lparr>spawn_error = None, status = 0, stdout = logo_old\<rparr>
        else \<lparr>spawn_error = None, status = 128, stdout = []\<rparr>),
      readFileSync = (\<lambda>p.
        if p = ''/repo/logo.png'' \<or> p = ''/repo/new.png'' then Inr logo_new
        else Inl (Error ''ENOENT: no such file or directory'')),
      PNG_sync_read = (\<lambda>b.
        case b of
          w # h # px \<Rightarrow>
            if w \<noteq> 0 \<and> h \<noteq> 0 \<and> length px = 4 * unat w * unat h
            then Inr \<lparr>width = unat w, height = unat h, data = px\<rparr>
            else Inl (Error ''Invalid file signature'')
        | _ \<Rightarrow> Inl (Error ''Invalid file signature'')),
      PNG_sync_write = (\<lambda>p. Inr (of_nat (width p) # of_nat (height p) # data p)),
      pixelmatch = (\<lambda>img1 img2 output w h options.
        if length img1 = 4 * w * h \<and> length img2 = 4 * w * h \<and> length output = 4 * w * h
        then Inr (exact_match img1 img2)
        else Inl (Error ''Image data size does not match width/height'')),
      workspaceFolders = Some [''/repo''],
      getWorkspaceFolder = (\<lambda>p. if take 6 p = ''/repo/'' then Some ''/repo'' else None)\<rparr>"

text \<open>What \<open>handleCompareWithPrevious\<close> hands to the viewer for \<open>/repo/logo.png\<close>.\<close>

definition logo_diff_data :: ImageDiffData where
  "logo_diff_data =
     \<lparr>currentPath = ''/repo/logo.png'', currentData = logo_new, previousData = logo_old,
      currentLabel = ''Current'', previousLabel = ''Previous Commit (HEAD~1)''\<rparr>"

text \<open>The same host with an engine that reports no differing pixel.\<close>

definition uncounted_host :: host where
  "uncounted_host =
     test_host\<lparr>pixelmatch := (\<lambda>img1 img2 output w h options.
        case pixelmatch test_host img1 img2 output w h options of
          Inl e \<Rightarrow> Inl e
        | Inr (d, n) \<Rightarrow> Inr (d, 0))\<rparr>"



section \<open>Auxiliary facts\<close>

lemma bindE_simps:
  "bindE (Inl e) f = Inl e" "bindE (Inr x) f = f x"
  by (simp_all add: bindE_def)

lemma length_Buffer_copy:
  "length (Buffer_copy src target ts ss se) = length target"
  by (simp add: Buffer_copy_def Let_def min_def)

lemma nth_Buffer_copy:
  assumes "ts + (se - ss) \<le> length target" and "se \<le> length src" and "i < length target"
  shows "Buffer_copy src target ts ss se ! i =
           (if ts \<le> i \<and> i < ts + (se - ss) then src ! (ss + (i - ts)) else target ! i)"
  using assms
  by (auto simp: Buffer_copy_def Let_def nth_append min_def)

lemma row_bound: "y < n \<Longrightarrow> y * W + W \<le> n * (W::nat)"
proof -
  assume "y < n"
  then have "Suc y * W \<le> n * W" by (intro mult_le_mono1) simp
  then show ?thesis by simp
qed

lemma idx_lt: "a + W \<le> (n::nat) \<Longrightarrow> x < W \<Longrightarrow> c < 4 \<Longrightarrow> 4 * (a + x) + c < 4 * n"
  by arith

lemma idx_below: "a + W \<le> (b::nat) \<Longrightarrow> x < W \<Longrightarrow> c < 4 \<Longrightarrow> \<not> 4 * b \<le> 4 * (a + x) + c"
  by arith

lemma idx_above: "b + W \<le> (a::nat) \<Longrightarrow> w \<le> W \<Longrightarrow> \<not> 4 * (a + x) + c < 4 * b + (4 * (b + w) - 4 * b)"
  by arith

lemma bitblt_rows_Suc:
  "bitblt_rows src W 0 0 w (Suc k) 0 0 d0 =
     Buffer_copy (data src) (bitblt_rows src W 0 0 w k 0 0 d0)
       (4 * (k * W)) (4 * (k * width src)) (4 * (k * width src + w))"
  by (simp add: bitblt_rows_def)

lemma length_bitblt_rows: "length (bitblt_rows src W sx sy w k dx dy d0) = length d0"
proof -
  have "length (fold (\<lambda>y d. Buffer_copy (data src) d (f y) (g y) (e y)) ys d0) = length d0"
    for f g e :: "nat \<Rightarrow> nat" and ys
    by (induction ys arbitrary: d0) (simp_all add: length_Buffer_copy)
  then show ?thesis by (simp add: bitblt_rows_def)
qed

lemma nth_bitblt_rows:
  assumes src: "length (data src) = 4 * (h * width src)" and wW: "width src \<le> W" and hH: "h \<le> Hh"
    and k: "k \<le> h" and y: "y < Hh" and x: "x < W" and c: "c < 4"
  shows "bitblt_rows src W 0 0 (width src) k 0 0 (replicate (4 * (Hh * W)) 0) ! (4 * (y * W + x) + c) =
           (if x < width src \<and> y < k then data src ! (4 * (y * width src + x) + c) else 0)"
  using k
proof (induction k)
  case 0
  have "4 * (y * W + x) + c < 4 * (Hh * W)"
    using idx_lt [OF row_bound [OF y, of W] x c] .
  then show ?case by (simp add: bitblt_rows_def)
next
  case (Suc k)
  let ?w = "width src"
  let ?d = "bitblt_rows src W 0 0 ?w k 0 0 (replicate (4 * (Hh * W)) 0)"
  let ?i = "4 * (y * W + x) + c"
  have IH: "?d ! ?i = (if x < ?w \<and> y < k then data src ! (4 * (y * ?w + x) + c) else 0)"
    using Suc by simp
  have len: "length ?d = 4 * (Hh * W)" by (simp add: length_bitblt_rows)
  have kh: "k < h" and kH: "k < Hh" using Suc.prems hH by auto
  have i_lt: "?i < length ?d"
    using idx_lt [OF row_bound [OF y, of W] x c] len by simp
  have fits: "4 * (k * W) + (4 * (k * ?w + ?w) - 4 * (k * ?w)) \<le> length ?d"
    using row_bound [OF kH, of W] wW len by simp
  have src_ok: "4 * (k * ?w + ?w) \<le> length (data src)"
    using row_bound [OF kh, of ?w] src by simp
  have step: "bitblt_rows src W 0 0 ?w (Suc k) 0 0 (replicate (4 * (Hh * W)) 0) ! ?i =
      (if 4 * (k * W) \<le> ?i \<and> ?i < 4 * (k * W) + (4 * (k * ?w + ?w) - 4 * (k * ?w))
       then data src ! (4 * (k * ?w) + (?i - 4 * (k * W))) else ?d ! ?i)"
    unfolding bitblt_rows_Suc by (rule nth_Buffer_copy [OF fits src_ok i_lt])
  consider (lt) "y < k" | (eq) "y = k" | (gt) "k < y" by linarith
  then show ?case
  proof cases
    case lt
    have "y * W + W \<le> k * W" using row_bound [OF lt] .
    then have "\<not> 4 * (k * W) \<le> ?i" using x c by (rule idx_below)
    then show ?thesis using step IH lt by simp
  next
    case eq
    show ?thesis
    proof (cases "x < ?w")
      case True
      have "4 * (k * ?w) + (?i - 4 * (k * W)) = 4 * (y * ?w + x) + c" using eq by simp
      moreover have "4 * (k * W) \<le> ?i \<and> ?i < 4 * (k * W) + (4 * (k * ?w + ?w) - 4 * (k * ?w))"
        using eq True c by simp
      ultimately show ?thesis using step eq True by (simp add: add.assoc)
    next
      case False
      have "\<not> ?i < 4 * (k * W) + (4 * (k * ?w + ?w) - 4 * (k * ?w))" using eq False by simp
      then show ?thesis using step IH eq False by simp
    qed
  next
    case gt
    have "k * W + W \<le> y * W" using row_bound [OF gt] .
    then have "\<not> ?i < 4 * (k * W) + (4 * (k * W + ?w) - 4 * (k * W))" using wW by (rule idx_above)
    then have "\<not> ?i < 4 * (k * W) + (4 * (k * ?w + ?w) - 4 * (k * ?w))" by simp
    then show ?thesis using step IH gt by simp
  qed
qed

lemma bitblt_onto_blank:
  assumes "width src \<le> W" and "height src \<le> Hh"
  shows "PNG_bitblt src (new_PNG W Hh) 0 0 (width src) (height src) 0 0 =
           Inr \<lparr>width = W, height = Hh,
                data = bitblt_rows src W 0 0 (width src) (height src) 0 0 (replicate (4 * (Hh * W)) 0)\<rparr>"
  using assms by (simp add: PNG_bitblt_def new_PNG_def mult_ac)

lemma generate_canvases_eq:
  "generate_canvases a b =
     (let W = max (width a) (width b); Hh = max (height a) (height b) in
      Inr (\<lparr>width = W, height = Hh,
            data = bitblt_rows a W 0 0 (width a) (height a) 0 0 (replicate (4 * (Hh * W)) 0)\<rparr>,
           \<lparr>width = W, height = Hh,
            data = bitblt_rows b W 0 0 (width b) (height b) 0 0 (replicate (4 * (Hh * W)) 0)\<rparr>,
           new_PNG W Hh))"
  by (simp add: generate_canvases_def Let_def bitblt_onto_blank bindE_simps)

lemma generate_undecodable:
  "PNG_sync_read H c = Inl e \<or> PNG_sync_read H p = Inl e \<Longrightarrow> generate H c p = None"
  by (cases "PNG_sync_read H c") (auto simp: generate_def generate_try_def bindE_simps)

text \<open>The program on the small host.\<close>

lemma test_getVersion_logo:
  "getVersion test_host \<lparr>filePath = ''/repo/logo.png'', revision = ''HEAD~1'', workspaceRoot = ''/repo''\<rparr> = Some logo_old"
  by (simp add: getVersion_def getVersion_try_def execSync_def gitCommand_def relativePath_def replace_backslashes_def test_host_def test_relative_def logo_old_def)

lemma test_getVersion_new:
  "getVersion test_host \<lparr>filePath = ''/repo/new.png'', revision = ''HEAD~1'', workspaceRoot = ''/repo''\<rparr> = None"
  by (simp add: getVersion_def getVersion_try_def execSync_def gitCommand_def relativePath_def replace_backslashes_def test_host_def test_relative_def)

lemma test_getWorkspaceRoot:
  "getWorkspaceRoot test_host \<lparr>fsPath = ''/repo/new.png''\<rparr> = ([], Some ''/repo'')"
  by (simp add: getWorkspaceRoot_def test_host_def)








lemma test_generate:
  "generate test_host logo_new logo_old = Some ''data:image/png;base64,AgIAAAAA/wAA//8AAP8AAAAA''"
  by code_simp

lemma test_generate_uncounted:
  "generate uncounted_host logo_new logo_old = generate test_host logo_new logo_old"
  by code_simp

lemma test_base64_new: "getImageBase64 test_host logo_new ''/repo/logo.png'' = ''data:image/png;base64,AgH/AAD/AAD//w==''"
  by code_simp

lemma test_base64_old: "getImageBase64 test_host logo_old ''/repo/logo.png'' = ''data:image/png;base64,AQL/AAD/AP8A/w==''"
  by code_simp

section \<open>The claims\<close>




text \<open>
  Claim C2, as amended. When no previous version can be retrieved, the handler does not
  build a result with the current image alone: it shows the warning
  "Cannot retrieve previous version (HEAD~1) of this image from Git", opens no viewer
  and reads no file. No error is reported.
\<close>

theorem no_previous_version_warns:
  assumes "snd (getWorkspaceRoot H uri) = Some rootPath" and "rootPath \<noteq> []"
    and "getVersion H \<lparr>filePath = fsPath uri, revision = ''HEAD~1'', workspaceRoot = rootPath\<rparr> = None"
  shows "handleCompareWithPrevious H context uri =
           \<lparr>messages = [WarningMessage ''Cannot retrieve previous version (HEAD~1) of this image from Git''],
            panels = []\<rparr>"
  using assms
  by (auto simp: handleCompareWithPrevious_def handleCompareWithPrevious_try_def getWorkspaceRoot_def Let_def
           split: option.splits prod.splits)

theorem no_previous_version_warns_witness:
  "handleCompareWithPrevious test_host \<lparr>extensionUri = ''/ext''\<rparr> \<lparr>fsPath = ''/repo/new.png''\<rparr> =
           \<lparr>messages = [WarningMessage ''Cannot retrieve previous version (HEAD~1) of this image from Git''],
            panels = []\<rparr>"
  using no_previous_version_warns [of test_host "\<lparr>fsPath = ''/repo/new.png''\<rparr>" "''/repo''" "\<lparr>extensionUri = ''/ext''\<rparr>"]
  by (simp add: test_getVersion_new test_getWorkspaceRoot)

text \<open>
  Claim C2 as stated fails: \<open>/repo/new.png\<close> has no history on the small host, and
  the handler opens no panel, so no result with the current image exists.
\<close>

theorem no_previous_version_counterexample:
  "getVersion test_host \<lparr>filePath = ''/repo/new.png'', revision = ''HEAD~1'', workspaceRoot = ''/repo''\<rparr> = None
   \<and> panels (handleCompareWithPrevious test_host \<lparr>extensionUri = ''/ext''\<rparr> \<lparr>fsPath = ''/repo/new.png''\<rparr>) = []"
  by (simp add: test_getVersion_new handleCompareWithPrevious_def handleCompareWithPrevious_try_def test_getWorkspaceRoot)

text \<open>
  Claim C3. For decoded images \<open>a\<close> and \<open>b\<close> (four bytes per pixel), the generator
  builds canvases of width \<open>max (width a) (width b)\<close> and height
  \<open>max (height a) (height b)\<close>; the pixel at \<open>(x, y)\<close> of the first canvas is the
  pixel at \<open>(x, y)\<close> of \<open>a\<close> where \<open>a\<close> has one and all-zero elsewhere, and
  likewise for the second canvas and \<open>b\<close>: nothing is scaled, cropped or moved.
\<close>

theorem canvases_are_padded_copies:
  assumes "length (data a) = 4 * width a * height a"
    and "length (data b) = 4 * width b * height b"
  shows "\<exists>currentImg previousImg diffImg.
           generate_canvases a b = Inr (currentImg, previousImg, diffImg)
           \<and> width currentImg = max (width a) (width b)
           \<and> height currentImg = max (height a) (height b)
           \<and> width previousImg = max (width a) (width b)
           \<and> height previousImg = max (height a) (height b)
           \<and> length (data currentImg) = 4 * max (width a) (width b) * max (height a) (height b)
           \<and> length (data previousImg) = 4 * max (width a) (width b) * max (height a) (height b)
           \<and> (\<forall>y < max (height a) (height b). \<forall>x < max (width a) (width b). \<forall>c < 4.
                 data currentImg ! (4 * (y * max (width a) (width b) + x) + c) =
                   (if x < width a \<and> y < height a
                    then data a ! (4 * (y * width a + x) + c) else 0)
                 \<and> data previousImg ! (4 * (y * max (width a) (width b) + x) + c) =
                   (if x < width b \<and> y < height b
                    then data b ! (4 * (y * width b + x) + c) else 0))"
proof -
  let ?W = "max (width a) (width b)" and ?H = "max (height a) (height b)"
  let ?ca = "\<lparr>width = ?W, height = ?H,
              data = bitblt_rows a ?W 0 0 (width a) (height a) 0 0 (replicate (4 * (?H * ?W)) 0)\<rparr>"
  let ?cb = "\<lparr>width = ?W, height = ?H,
              data = bitblt_rows b ?W 0 0 (width b) (height b) 0 0 (replicate (4 * (?H * ?W)) 0)\<rparr>"
  have la: "length (data a) = 4 * (height a * width a)" using assms(1) by (simp add: mult_ac)
  have lb: "length (data b) = 4 * (height b * width b)" using assms(2) by (simp add: mult_ac)
  have eq: "generate_canvases a b = Inr (?ca, ?cb, new_PNG ?W ?H)"
    by (simp add: generate_canvases_eq Let_def)
  have dims: "width ?ca = ?W" "height ?ca = ?H" "width ?cb = ?W" "height ?cb = ?H"
    by simp_all
  have len: "length (data ?ca) = 4 * ?W * ?H" "length (data ?cb) = 4 * ?W * ?H"
    by (simp_all add: length_bitblt_rows mult_ac)
  have wa: "width a \<le> ?W" and ha: "height a \<le> ?H"
    and wb: "width b \<le> ?W" and hb: "height b \<le> ?H"
    by simp_all
  have pa: "data ?ca ! (4 * (y * ?W + x) + c) =
        (if x < width a \<and> y < height a then data a ! (4 * (y * width a + x) + c) else 0)"
    if "y < ?H" "x < ?W" "c < 4" for y x c
    using nth_bitblt_rows [OF la wa ha order_refl that] by simp
  have pb: "data ?cb ! (4 * (y * ?W + x) + c) =
        (if x < width b \<and> y < height b then data b ! (4 * (y * width b + x) + c) else 0)"
    if "y < ?H" "x < ?W" "c < 4" for y x c
    using nth_bitblt_rows [OF lb wb hb order_refl that] by simp
  have px: "\<forall>y < ?H. \<forall>x < ?W. \<forall>c < 4.
      data ?ca ! (4 * (y * ?W + x) + c) =
        (if x < width a \<and> y < height a then data a ! (4 * (y * width a + x) + c) else 0)
      \<and> data ?cb ! (4 * (y * ?W + x) + c) =
        (if x < width b \<and> y < height b then data b ! (4 * (y * width b + x) + c) else 0)"
    using pa pb by blast
  from eq dims len px show ?thesis by blast
qed

theorem canvases_are_padded_copies_witness:
  "\<exists>currentImg previousImg diffImg.
     generate_canvases \<lparr>width = 2, height = 1, data = [255, 0, 0, 255, 0, 0, 255, 255]\<rparr>
        \<lparr>width = 1, height = 2, data = [255, 0, 0, 255, 0, 255, 0, 255]\<rparr>
       = Inr (currentImg, previousImg, diffImg)
     \<and> width currentImg = 2 \<and> height currentImg = 2
     \<and> width previousImg = 2 \<and> height previousImg = 2
     \<and> length (data currentImg) = 16 \<and> length (data previousImg) = 16
     \<and> data currentImg ! 6 = 255 \<and> data previousImg ! 6 = 0
     \<and> data currentImg ! 9 = 0 \<and> data previousImg ! 9 = 255"
proof -
  let ?a = "\<lparr>width = 2, height = 1, data = [255, 0, 0, 255, 0, 0, 255, 255 :: 8 word]\<rparr>"
  let ?b = "\<lparr>width = 1, height = 2, data = [255, 0, 0, 255, 0, 255, 0, 255 :: 8 word]\<rparr>"
  have h1: "length (data ?a) = 4 * width ?a * height ?a" by simp
  have h2: "length (data ?b) = 4 * width ?b * height ?b" by simp
  obtain ca cb cd where g: "generate_canvases ?a ?b = Inr (ca, cb, cd)"
    and dims: "width ca = max (width ?a) (width ?b)" "height ca = max (height ?a) (height ?b)"
      "width cb = max (width ?a) (width ?b)" "height cb = max (height ?a) (height ?b)"
    and len: "length (data ca) = 4 * max (width ?a) (width ?b) * max (height ?a) (height ?b)"
      "length (data cb) = 4 * max (width ?a) (width ?b) * max (height ?a) (height ?b)"
    and px: "\<forall>y < max (height ?a) (height ?b). \<forall>x < max (width ?a) (width ?b). \<forall>c < 4.
          data ca ! (4 * (y * max (width ?a) (width ?b) + x) + c) =
            (if x < width ?a \<and> y < height ?a then data ?a ! (4 * (y * width ?a + x) + c) else 0)
          \<and> data cb ! (4 * (y * max (width ?a) (width ?b) + x) + c) =
            (if x < width ?b \<and> y < height ?b then data ?b ! (4 * (y * width ?b + x) + c) else 0)"
    using canvases_are_padded_copies [OF h1 h2] by blast
  have p1: "data ca ! 6 = 255 \<and> data cb ! 6 = 0"
    using px [rule_format, of 0 1 2] by simp
  have p2: "data ca ! 9 = 0 \<and> data cb ! 9 = 255"
    using px [rule_format, of 1 0 1] by simp
  have d: "width ca = 2" "height ca = 2" "width cb = 2" "height cb = 2"
    "length (data ca) = 16" "length (data cb) = 16"
    using dims len by simp_all
  from g d p1 p2 show ?thesis by blast
qed

text \<open>
  Claim C4. When either buffer fails to decode as PNG, the viewer still shows both
  encoded images and has no diff image; \<open>openDiffViewer\<close> returns its panel, nothing
  is thrown.
\<close>

theorem undecodable_degrades_to_display_only:
  assumes "PNG_sync_read H (currentData d) = Inl e \<or> PNG_sync_read H (previousData d) = Inl e"
  shows "html (openDiffViewer H context d) =
           Some \<lparr>currentImage = getImageBase64 H (currentData d) (currentPath d),
                 previousImage = getImageBase64 H (previousData d) (currentPath d),
                 diffImage = None,
                 shownCurrentLabel = currentLabel d,
                 shownPreviousLabel = previousLabel d\<rparr>"
  using generate_undecodable [OF assms]
  by (simp add: openDiffViewer_def Let_def)

theorem undecodable_degrades_to_display_only_witness:
  "html (openDiffViewer test_host \<lparr>extensionUri = ''/ext''\<rparr>
           (logo_diff_data\<lparr>previousData := [0xFF, 0xD8, 0xFF, 0xE0]\<rparr>)) =
     Some \<lparr>currentImage = ''data:image/png;base64,AgH/AAD/AAD//w=='',
           previousImage = ''data:image/png;base64,/9j/4A=='',
           diffImage = None,
           shownCurrentLabel = ''Current'',
           shownPreviousLabel = ''Previous Commit (HEAD~1)''\<rparr>"
proof -
  have "PNG_sync_read test_host [0xFF, 0xD8, 0xFF, 0xE0] = Inl (Error ''Invalid file signature'')"
    by (simp add: test_host_def)
  then have "PNG_sync_read test_host (currentData (logo_diff_data\<lparr>previousData := [0xFF, 0xD8, 0xFF, 0xE0]\<rparr>))
        = Inl (Error ''Invalid file signature'')
      \<or> PNG_sync_read test_host (previousData (logo_diff_data\<lparr>previousData := [0xFF, 0xD8, 0xFF, 0xE0]\<rparr>))
        = Inl (Error ''Invalid file signature'')"
    by simp
  from undecodable_degrades_to_display_only [OF this, of "\<lparr>extensionUri = ''/ext''\<rparr>"]
  have "html (openDiffViewer test_host \<lparr>extensionUri = ''/ext''\<rparr>
           (logo_diff_data\<lparr>previousData := [0xFF, 0xD8, 0xFF, 0xE0]\<rparr>)) =
     Some \<lparr>currentImage = getImageBase64 test_host logo_new ''/repo/logo.png'',
           previousImage = getImageBase64 test_host [0xFF, 0xD8, 0xFF, 0xE0] ''/repo/logo.png'',
           diffImage = None,
           shownCurrentLabel = ''Current'',
           shownPreviousLabel = ''Previous Commit (HEAD~1)''\<rparr>"
    by (simp add: logo_diff_data_def)
  moreover have "getImageBase64 test_host [0xFF, 0xD8, 0xFF, 0xE0] ''/repo/logo.png'' =
      ''data:image/png;base64,/9j/4A==''"
    by code_simp
  ultimately show ?thesis by (simp add: test_base64_new)
qed

text \<open>
  Claim C5. \<open>getVersion\<close> returns the content when the subprocess starts, exits with
  status 0 and writes at most 10 MiB, and \<open>null\<close> in every other case; whatever the
  \<open>try\<close> block throws becomes \<open>null\<close>.
\<close>

theorem getVersion_collapses_failures:
  "getVersion H options =
     (let r = run_process H (gitCommand H options) (workspaceRoot options)
      in if spawn_error r = None \<and> status r = 0 \<and> length (stdout r) \<le> 10 * 1024 * 1024
         then Some (stdout r) else None)
   \<and> (\<forall>e. getVersion_try H options = Inl e \<longrightarrow> getVersion H options = None)"
  by (auto simp: getVersion_def getVersion_try_def execSync_def Let_def split: option.splits)

theorem getVersion_collapses_failures_witness:
  "getVersion test_host
     \<lparr>filePath = ''/repo/new.png'', revision = ''HEAD~1'', workspaceRoot = ''/repo''\<rparr> = None
   \<and> getVersion test_host
     \<lparr>filePath = ''/repo/logo.png'', revision = ''HEAD~1'', workspaceRoot = ''/repo''\<rparr> = Some logo_old"
  using getVersion_collapses_failures [of test_host
      "\<lparr>filePath = ''/repo/new.png'', revision = ''HEAD~1'', workspaceRoot = ''/repo''\<rparr>"]
    getVersion_collapses_failures [of test_host
      "\<lparr>filePath = ''/repo/logo.png'', revision = ''HEAD~1'', workspaceRoot = ''/repo''\<rparr>"]
  by (simp add: test_getVersion_new test_getVersion_logo)




text \<open>
  Claim C8, evaluated at a file name that contains a double quote: the command carries
  the name between double quotes as it is, so the command has three double quotes and
  they no longer pair.
\<close>

theorem unescaped_quote_in_command:
  "gitCommand test_host \<lparr>filePath = ''/repo/a'' @ [CHR 0x22] @ ''b.png'', revision = ''HEAD~1'',
                          workspaceRoot = ''/repo''\<rparr>
     = ''git show HEAD~1:'' @ [CHR 0x22] @ ''a'' @ [CHR 0x22] @ ''b.png'' @ [CHR 0x22]
   \<and> length (filter (\<lambda>c. c = CHR 0x22)
         (gitCommand test_host \<lparr>filePath = ''/repo/a'' @ [CHR 0x22] @ ''b.png'',
                                 revision = ''HEAD~1'', workspaceRoot = ''/repo''\<rparr>)) = 3"
  by (simp add: gitCommand_def relativePath_def replace_backslashes_def test_host_def test_relative_def)

text \<open>
  Claim C9. In two-file mode the right file is the current image and the left file the
  previous one, the diff is generated from \<open>(rightData, leftData)\<close>, and the labels are
  "Current" and "Previous" whatever the title.
\<close>

theorem two_files_right_is_current:
  "html (openTwoFilesDiffViewer H context options) =
     Some \<lparr>currentImage = getImageBase64 H (rightData options) (rightPath options),
           previousImage = getImageBase64 H (leftData options) (leftPath options),
           diffImage = generate H (rightData options) (leftData options),
           shownCurrentLabel = ''Current'',
           shownPreviousLabel = ''Previous''\<rparr>
   \<and> html (openTwoFilesDiffViewer H context (options\<lparr>title := t\<rparr>)) =
       html (openTwoFilesDiffViewer H context options)"
  by (simp add: openTwoFilesDiffViewer_def Let_def)

theorem two_files_right_is_current_witness:
  "html (openTwoFilesDiffViewer test_host \<lparr>extensionUri = ''/ext''\<rparr>
          \<lparr>leftPath = ''/repo/logo.png'', rightPath = ''/repo/logo.png'',
           leftData = logo_old, rightData = logo_new, title = Some ''Before and after''\<rparr>) =
     Some \<lparr>currentImage = ''data:image/png;base64,AgH/AAD/AAD//w=='',
           previousImage = ''data:image/png;base64,AQL/AAD/AP8A/w=='',
           diffImage = Some ''data:image/png;base64,AgIAAAAA/wAA//8AAP8AAAAA'',
           shownCurrentLabel = ''Current'',
           shownPreviousLabel = ''Previous''\<rparr>"
  using two_files_right_is_current [of test_host "\<lparr>extensionUri = ''/ext''\<rparr>"
      "\<lparr>leftPath = ''/repo/logo.png'', rightPath = ''/repo/logo.png'',
           leftData = logo_old, rightData = logo_new, title = Some ''Before and after''\<rparr>"]
  by (simp add: test_generate test_base64_new test_base64_old)

text \<open>
  Claim C10. The MIME subtype of the data URL is the path's extension without its dot,
  unchanged, whatever the bytes; in the history viewer the previous image is declared
  with the extension of the current file's path.
\<close>

theorem mime_subtype_from_current_path:
  "getImageBase64 H b path =
     ''data:image/'' @ drop 1 (path_extname H path) @ '';base64,'' @ toString_base64 H b
   \<and> map_option currentImage (html (openDiffViewer H context d)) =
       Some (''data:image/'' @ drop 1 (path_extname H (currentPath d)) @ '';base64,''
             @ toString_base64 H (currentData d))
   \<and> map_option previousImage (html (openDiffViewer H context d)) =
       Some (''data:image/'' @ drop 1 (path_extname H (currentPath d)) @ '';base64,''
             @ toString_base64 H (previousData d))"
  by (simp add: openDiffViewer_def getImageBase64_def Let_def)

theorem mime_subtype_from_current_path_witness:
  "getImageBase64 test_host [0xFF, 0xD8, 0xFF, 0xE0] ''/repo/Logo.PNG'' = ''data:image/PNG;base64,/9j/4A==''
   \<and> map_option previousImage (html (openDiffViewer test_host \<lparr>extensionUri = ''/ext''\<rparr>
         \<lparr>currentPath = ''/repo/Logo.PNG'', currentData = logo_new,
          previousData = [0xFF, 0xD8, 0xFF, 0xE0],
          currentLabel = ''Current'', previousLabel = ''Previous Commit (HEAD~1)''\<rparr>)) =
       Some ''data:image/PNG;base64,/9j/4A==''"
proof -
  have e: "drop (Suc 0) (path_extname test_host ''/repo/Logo.PNG'') = ''PNG''" by code_simp
  have b: "toString_base64 test_host [0xFF, 0xD8, 0xFF, 0xE0] = ''/9j/4A==''" by code_simp
  from mime_subtype_from_current_path [of test_host "[0xFF, 0xD8, 0xFF, 0xE0]" "''/repo/Logo.PNG''"
      "\<lparr>extensionUri = ''/ext''\<rparr>"
      "\<lparr>currentPath = ''/repo/Logo.PNG'', currentData = logo_new,
          previousData = [0xFF, 0xD8, 0xFF, 0xE0],
          currentLabel = ''Current'', previousLabel = ''Previous Commit (HEAD~1)''\<rparr>"]
  show ?thesis by (simp add: e b)
qed

end
